theory Spec2Isabelle
  imports Main "HOL-Library.Char_ord" "HOL-Library.List_Lexorder"
begin

section \<open>bronx.compat.itertools: the pairwise helper\<close>

text \<open>
  The module defines \<^verbatim>\<open>pairwise\<close> itself whenever
  \<^verbatim>\<open>sys.version_info.major == 3 and sys.version_info.major < 10\<close>, which is the case on
  every Python 3 interpreter, so the definition below is the one in use:
  \<^verbatim>\<open>
    a, b = itertools.tee(iterable)
    next(b, None)
    return zip(a, b)
  \<close>
  A finite iterable is the list of the items it produces. \<^verbatim>\<open>tee\<close> gives two independent
  iterators over the same items, \<^verbatim>\<open>next(b, None)\<close> advances one of them by one item (or
  returns the default when there is none), and Python's \<^verbatim>\<open>zip\<close> stops with the shorter
  iterator, as \<^const>\<open>zip\<close> does.
\<close>

definition tee :: "'a list \<Rightarrow> 'a list \<times> 'a list" where
  "tee iterable = (iterable, iterable)"

fun next_default :: "'a list \<Rightarrow> 'a option \<Rightarrow> 'a option \<times> 'a list" where
  "next_default [] d = (d, [])"
| "next_default (x # it) d = (Some x, it)"

definition pairwise :: "'a list \<Rightarrow> ('a \<times> 'a) list" where
  "pairwise iterable =
     (let (a, b) = tee iterable;
          (_, b') = next_default b None
      in zip a b')"

section \<open>Python values, errors and strings\<close>

text \<open>
  The values the registry and the requirements hold. A \<^typ>\<open>string\<close> is a Python
  \<^verbatim>\<open>str\<close> whose code points are below 256, one \<^typ>\<open>char\<close> each. \<open>py_eq\<close> is
  Python's \<^verbatim>\<open>==\<close> on these values: a \<^verbatim>\<open>bool\<close> is an \<^verbatim>\<open>int\<close> there, so
  \<^verbatim>\<open>True == 1\<close>.
\<close>

datatype pyval = PyNone | PyBool bool | PyInt int | PyStr string

fun py_eq :: "pyval \<Rightarrow> pyval \<Rightarrow> bool" where
  "py_eq (PyBool a) (PyInt i) = ((if a then 1 else 0) = i)"
| "py_eq (PyInt i) (PyBool a) = (i = (if a then 1 else 0))"
| "py_eq x y = (x = y)"

fun truthy :: "pyval \<Rightarrow> bool" where
  "truthy PyNone = False"
| "truthy (PyBool b) = b"
| "truthy (PyInt i) = (i \<noteq> 0)"
| "truthy (PyStr s) = (s \<noteq> [])"

text \<open>
  Every \<^verbatim>\<open>raise\<close> of the module is a constructor carrying the message.
  \<open>InterpreterError\<close> is an exception raised by the interpreter or a library function
  (\<^verbatim>\<open>re.sub\<close>, \<^verbatim>\<open>int\<close>, an attribute assignment): it carries the name of the exception
  class only.
\<close>

datatype error =
    RuntimeError string
  | ValueError string
  | TypeError string
  | ExternalCodeUnavailableError string
  | InterpreterError string

definition bind :: "error + 'a \<Rightarrow> ('a \<Rightarrow> error + 'b) \<Rightarrow> error + 'b" where
  "bind m f = (case m of Inl e \<Rightarrow> Inl e | Inr x \<Rightarrow> f x)"

text \<open>
  Python's \<^verbatim>\<open>a and b\<close> on a Boolean \<open>a\<close>: the right operand is evaluated (and may raise)
  only when the left one is true.
\<close>

definition py_and :: "bool \<Rightarrow> error + bool \<Rightarrow> error + bool" where
  "py_and a b = (if a then b else Inr a)"

type_synonym kwargs = "(string \<times> pyval) list"

function str_nat :: "nat \<Rightarrow> string" where
  "str_nat n = (if n < 10 then [char_of (48 + n)] else str_nat (n div 10) @ [char_of (48 + n mod 10)])"
  by pat_completeness auto
termination
  by (relation "measure id") auto

fun py_str :: "pyval \<Rightarrow> string" where
  "py_str PyNone = ''None''"
| "py_str (PyBool b) = (if b then ''True'' else ''False'')"
| "py_str (PyInt i) = (if i < 0 then CHR ''-'' # str_nat (nat (- i)) else str_nat (nat i))"
| "py_str (PyStr s) = s"

section \<open>The version callback of the fallback branch\<close>

text \<open>
  \<^verbatim>\<open>version_cb\<close> is \<^verbatim>\<open>distutils.version.LooseVersion\<close> or
  \<^verbatim>\<open>packaging.version.parse\<close> when one of these libraries is there; the checker's functions
  below take it as a parameter. The module's own fallback is
  \<^verbatim>\<open>
    tuple([int(x) for x in re.sub(r'(\.0+)*$', '', version1).split(".") if x.isdigit()])
  \<close>
  \<open>is_zero_groups s\<close> says that \<^verbatim>\<open>(\.0+)*\<close> matches the whole of \<open>s\<close>. The pattern ends in
  \<^verbatim>\<open>$\<close>, which holds at the end of the string and before a newline that ends it, so a match
  begins at the leftmost position from which the rest of the string (its last newline apart) is
  such a run of groups; \<^verbatim>\<open>re.sub\<close> removes that match.
\<close>

function is_zero_groups :: "string \<Rightarrow> bool" where
  "is_zero_groups [] = True"
| "is_zero_groups (c # cs) =
     (c = CHR ''.'' \<and> takeWhile (\<lambda>d. d = CHR ''0'') cs \<noteq> [] \<and>
      is_zero_groups (dropWhile (\<lambda>d. d = CHR ''0'') cs))"
  by pat_completeness auto
termination
  by (relation "measure length") (auto simp: length_dropWhile_le less_Suc_eq_le)

fun re_sub_zero_groups :: "string \<Rightarrow> string" where
  "re_sub_zero_groups [] = []"
| "re_sub_zero_groups (c # cs) =
     (if is_zero_groups (c # cs) then []
      else if last (c # cs) = CHR 0x0A \<and> is_zero_groups (butlast (c # cs)) then [CHR 0x0A]
      else c # re_sub_zero_groups cs)"

fun split_on :: "char \<Rightarrow> string \<Rightarrow> string list" where
  "split_on sep [] = [[]]"
| "split_on sep (c # cs) =
     (if c = sep then [] # split_on sep cs
      else (case split_on sep cs of [] \<Rightarrow> [[c]] | w # ws \<Rightarrow> (c # w) # ws))"

text \<open>
  \<^verbatim>\<open>str.isdigit\<close> below code point 256: the ten decimal digits and the superscript digits
  U+00B2, U+00B3 and U+00B9. \<^verbatim>\<open>int\<close> reads the decimal digits and raises
  \<^verbatim>\<open>ValueError\<close> on a superscript digit.
\<close>

definition is_decimal :: "char \<Rightarrow> bool" where
  "is_decimal c = (48 \<le> (of_char c :: nat) \<and> (of_char c :: nat) \<le> 57)"

definition isdigit :: "string \<Rightarrow> bool" where
  "isdigit x = (x \<noteq> [] \<and>
     (\<forall>c \<in> set x. is_decimal c \<or> c = CHR 0xB2 \<or> c = CHR 0xB3 \<or> c = CHR 0xB9))"

definition py_int :: "string \<Rightarrow> error + int" where
  "py_int x =
     (if x \<noteq> [] \<and> (\<forall>c \<in> set x. is_decimal c)
      then Inr (foldl (\<lambda>n c. 10 * n + (int (of_char c) - 48)) 0 x)
      else Inl (InterpreterError ''ValueError''))"

fun map_err :: "('a \<Rightarrow> error + 'b) \<Rightarrow> 'a list \<Rightarrow> error + 'b list" where
  "map_err f [] = Inr []"
| "map_err f (x # xs) = bind (f x) (\<lambda>y. bind (map_err f xs) (\<lambda>ys. Inr (y # ys)))"

fun crude_version_cb :: "pyval \<Rightarrow> error + int list" where
  "crude_version_cb (PyStr version1) =
     map_err py_int (filter isdigit (split_on CHR ''.'' (re_sub_zero_groups version1)))"
| "crude_version_cb _ = Inl (InterpreterError ''TypeError'')"

section \<open>bronx.syntax.externalcode: the import checker\<close>

text \<open>
  \<^verbatim>\<open>ExternalCodeImportChecker\<close>: \<^verbatim>\<open>_checked_out\<close> is \<^verbatim>\<open>None\<close> until the
  \<^verbatim>\<open>with\<close> block has been left, then \<^verbatim>\<open>True\<close> or \<^verbatim>\<open>False\<close>;
  \<^verbatim>\<open>_register\<close> is a dictionary from names to values. \<open>init_checker\<close> is
  \<^verbatim>\<open>__init__\<close>; the nickname is \<^verbatim>\<open>'external'\<close> when the caller gives none.
\<close>

record checker =
  nickname :: string
  checked_out :: "bool option"
  register :: "string \<rightharpoonup> pyval"

definition init_checker :: "string \<Rightarrow> checker" where
  "init_checker nick = \<lparr>nickname = nick, checked_out = None, register = Map.empty\<rparr>"

text \<open>
  \<^verbatim>\<open>_version_check\<close>: the registered version is parsed first, then the required one, and a
  parser that raises ends the check; the parsed versions are compared with \<^verbatim>\<open>>=\<close>.
\<close>

definition version_check ::
  "(pyval \<Rightarrow> error + 'o::ord) \<Rightarrow> checker \<Rightarrow> pyval \<Rightarrow> error + bool" where
  "version_check version_cb self minimal_version =
     (case register self ''version'' of
        None \<Rightarrow> Inl (RuntimeError (''No version registered for the '' @ nickname self @ '' package.''))
      | Some registered \<Rightarrow>
          bind (version_cb registered) (\<lambda>a.
          bind (version_cb minimal_version) (\<lambda>b. Inr (a \<ge> b))))"

definition item_check :: "checker \<Rightarrow> string \<Rightarrow> pyval \<Rightarrow> error + bool" where
  "item_check self itemname val =
     (case register self itemname of
        None \<Rightarrow> Inl (RuntimeError (''No '' @ itemname @ '' registered for the '' @ nickname self @ '' package.''))
      | Some registered \<Rightarrow> Inr (py_eq registered val))"

text \<open>
  \<^verbatim>\<open>_kwargs_check\<close>: the loop over \<^verbatim>\<open>kwargs.items()\<close>, in the order of the keyword
  arguments of the call, with the accumulator as an argument.
\<close>

fun kwargs_loop ::
  "(pyval \<Rightarrow> error + 'o::ord) \<Rightarrow> checker \<Rightarrow> bool \<Rightarrow> kwargs \<Rightarrow> error + bool" where
  "kwargs_loop version_cb self accumulate [] = Inr accumulate"
| "kwargs_loop version_cb self accumulate ((k, v) # rest) =
     bind (if k = ''version'' \<or> k = ''v''
           then py_and accumulate (version_check version_cb self v)
           else py_and accumulate (item_check self k v))
          (\<lambda>accumulate'. kwargs_loop version_cb self accumulate' rest)"

definition kwargs_check ::
  "(pyval \<Rightarrow> error + 'o::ord) \<Rightarrow> checker \<Rightarrow> kwargs \<Rightarrow> error + bool" where
  "kwargs_check version_cb self kwargs = kwargs_loop version_cb self True kwargs"

definition is_available ::
  "(pyval \<Rightarrow> error + 'o::ord) \<Rightarrow> checker \<Rightarrow> kwargs \<Rightarrow> error + bool" where
  "is_available version_cb self kwargs =
     (case checked_out self of
        None \<Rightarrow> Inl (RuntimeError (''No import was attempted yet for package '' @ nickname self @ ''.''))
      | Some ok \<Rightarrow> py_and ok (kwargs_check version_cb self kwargs))"

subsection \<open>The with block\<close>

text \<open>
  An exception that leaves the block is given by the names of the classes of its method
  resolution order and by the lines \<^verbatim>\<open>traceback.format_exception\<close> makes of it;
  \<^verbatim>\<open>issubclass(exc_type, ImportError)\<close> holds when \<^verbatim>\<open>ImportError\<close> is among these
  classes. \<^verbatim>\<open>__exit__\<close> returns the checker, the records it has sent to the logger and its
  return value (\<^verbatim>\<open>None\<close> where it ends without a \<^verbatim>\<open>return\<close>).
\<close>

record exc_info =
  exc_mro :: "string list"
  exc_lines :: "string list"

datatype log_record = Warning string | Info string

definition is_import_error :: "exc_info \<Rightarrow> bool" where
  "is_import_error e = (''ImportError'' \<in> set (exc_mro e))"

definition enter :: "checker \<Rightarrow> (string \<rightharpoonup> pyval)" where
  "enter self = register self"

definition exit :: "checker \<Rightarrow> exc_info option \<Rightarrow> checker \<times> log_record list \<times> pyval" where
  "exit self exc =
     (case exc of
        None \<Rightarrow> (self\<lparr>checked_out := Some True\<rparr>, [], PyNone)
      | Some e \<Rightarrow>
          if is_import_error e
          then (self\<lparr>checked_out := Some False\<rparr>,
                [Warning (''The '' @ nickname self @ '' package is unavailable.''),
                 Info (''Associated '' @ concat (exc_lines e))],
                PyBool True)
          else (self, [], PyNone))"

text \<open>
  \<^verbatim>\<open>with self as reg: body\<close>. The body receives the dictionary \<^verbatim>\<open>__enter__\<close> returns,
  which is the checker's own, so what the body stores is in the checker when \<^verbatim>\<open>__exit__\<close>
  runs; the body ends normally or with an exception. The exception leaves the statement
  unless the value \<^verbatim>\<open>__exit__\<close> returns is true. The result is the checker, the log and
  the exception that propagates, if any.
\<close>

definition with_stmt ::
  "checker \<Rightarrow> ((string \<rightharpoonup> pyval) \<Rightarrow> (string \<rightharpoonup> pyval) \<times> exc_info option) \<Rightarrow>
   checker \<times> log_record list \<times> exc_info option" where
  "with_stmt self body =
     (let (reg, raised) = body (enter self);
          (self', logs, ret) = exit (self\<lparr>register := reg\<rparr>) raised
      in (self', logs,
          (case raised of
             None \<Rightarrow> None
           | Some e \<Rightarrow> if truthy ret then None else Some e)))"

subsection \<open>The message of the unavailable error\<close>

text \<open>
  \<^verbatim>\<open>_format_exception_message\<close>. \<^verbatim>\<open>sorted(kwargs.items())\<close> orders the requirements by
  their keys, which are distinct in a dictionary. \<^verbatim>\<open>join_list_in_proper_english\<close> belongs to
  \<^verbatim>\<open>bronx.fancies.display\<close> and is a parameter here.
\<close>

definition format_requirement :: "string \<times> pyval \<Rightarrow> string" where
  "format_requirement kv =
     (case kv of (k, v) \<Rightarrow>
        if k = ''version'' \<or> k = ''v'' then py_str (PyStr k) @ ''>='' @ py_str v
        else py_str (PyStr k) @ ''=='' @ py_str v)"

definition format_exception_message ::
  "(string list \<Rightarrow> string) \<Rightarrow> checker \<Rightarrow> kwargs \<Rightarrow> string" where
  "format_exception_message join_list_in_proper_english self kwargs =
     (if kwargs = [] then ''The '' @ nickname self @ '' package is unavailable.''
      else
        (let requirements = map format_requirement (sort_key fst kwargs)
         in ''The '' @ nickname self @ '' package is unavailable (with '' @
            join_list_in_proper_english requirements @ '').''))"

subsection \<open>Functions, classes and the store\<close>

text \<open>
  The decorator receives objects, changes a class in place and makes a new function
  object, so objects live in a store and are handled by reference. What a callable does when
  it is called is a function from the positional and keyword arguments to an error or a
  value. A class keeps its \<^verbatim>\<open>__new__\<close> (its name, its documentation string, whether it
  is wrapped in \<^verbatim>\<open>classmethod\<close>, and what it does) and its other class-level attributes.
  \<open>cls_immutable\<close> says that the class is a built-in or extension type: an assignment to
  one of its attributes raises \<^verbatim>\<open>TypeError\<close>. \<open>cls_metacall\<close> is the \<^verbatim>\<open>__call__\<close> of
  the metaclass when the metaclass overrides it, as what a call of the class does given what
  \<^verbatim>\<open>__new__\<close> does; it is \<open>None\<close> for a class whose metaclass keeps the
  \<^verbatim>\<open>__call__\<close> of \<^verbatim>\<open>type\<close>, which goes through \<^verbatim>\<open>__new__\<close>.
  An old-style class is the legacy kind of class without \<^verbatim>\<open>__new__\<close>, which the
  decorator rejects; every class of Python 3 has \<^verbatim>\<open>__new__\<close>. \<open>Plain v\<close> is an
  object that is not callable.
\<close>

type_synonym ref = nat
type_synonym code = "pyval list \<Rightarrow> kwargs \<Rightarrow> error + pyval"

datatype pymethod =
  Method (m_name: string) (m_doc: "string option") (m_classmethod: bool) (m_code: code)

datatype pyclass =
  PyClass (cls_new: pymethod) (cls_dict: "string \<rightharpoonup> pyval") (cls_immutable: bool)
    (cls_metacall: "(code \<Rightarrow> code) option")

datatype pyobj =
    Function (fn_name: string) (fn_doc: "string option") (fn_code: code)
  | Class pyclass
  | OldStyleClass (old_code: code) (old_dict: "string \<rightharpoonup> pyval")
  | Plain pyval

record store =
  objs :: "ref \<Rightarrow> pyobj"
  next_ref :: ref

definition alloc :: "store \<Rightarrow> pyobj \<Rightarrow> ref \<times> store" where
  "alloc s obj = (next_ref s, s\<lparr>objs := (objs s)(next_ref s := obj), next_ref := Suc (next_ref s)\<rparr>)"

text \<open>
  \<^verbatim>\<open>isinstance(x, types.FunctionType)\<close>, \<^verbatim>\<open>hasattr(x, '__new__')\<close> and
  \<^verbatim>\<open>callable(x)\<close>.
\<close>

fun isfunction :: "pyobj \<Rightarrow> bool" where
  "isfunction (Function _ _ _) = True"
| "isfunction _ = False"

fun hasattr_new :: "pyobj \<Rightarrow> bool" where
  "hasattr_new (OldStyleClass _ _) = False"
| "hasattr_new _ = True"

fun callable :: "pyobj \<Rightarrow> bool" where
  "callable (Plain _) = False"
| "callable _ = True"

text \<open>
  Calling an object. Calling a class is instantiating it, which goes through its
  \<^verbatim>\<open>__new__\<close> with the class before the arguments of the call (twice when
  \<^verbatim>\<open>__new__\<close> is a class method); the class is left out of the argument list here, and
  what follows a \<^verbatim>\<open>__new__\<close> that returns is part of its \<open>code\<close>.
\<close>

definition call :: "store \<Rightarrow> ref \<Rightarrow> pyval list \<Rightarrow> kwargs \<Rightarrow> error + pyval" where
  "call s r args kw =
     (case objs s r of
        Function _ _ body \<Rightarrow> body args kw
      | Class cls \<Rightarrow>
          (case cls_metacall cls of
             None \<Rightarrow> m_code (cls_new cls) args kw
           | Some metacall \<Rightarrow> metacall (m_code (cls_new cls)) args kw)
      | OldStyleClass body _ \<Rightarrow> body args kw
      | Plain _ \<Rightarrow> Inl (InterpreterError ''TypeError''))"



subsection \<open>The decorator\<close>

text \<open>
  \<^verbatim>\<open>actual_disabled_if_unavailable\<close>, the closure over \<^verbatim>\<open>self\<close>, \<^verbatim>\<open>kwargs\<close> and
  \<^verbatim>\<open>available\<close>. It returns the reference of the object that takes the place of the
  target, and the store. The assignment to \<^verbatim>\<open>__new__\<close> raises \<^verbatim>\<open>TypeError\<close> on a
  built-in or extension class and \<^verbatim>\<open>AttributeError\<close> on an object that is not a
  class. The test for \<^verbatim>\<open>__new__\<close> at the beginning has excluded
  the old-style class when the last distinction is made; its case repeats the result of
  that test.
\<close>

definition error_code :: "string \<Rightarrow> code" where
  "error_code excmsg = (\<lambda>args kw. Inl (ExternalCodeUnavailableError excmsg))"

definition actual_disabled_if_unavailable ::
  "(string list \<Rightarrow> string) \<Rightarrow> checker \<Rightarrow> kwargs \<Rightarrow> bool \<Rightarrow> store \<Rightarrow> ref \<Rightarrow> error + ref \<times> store" where
  "actual_disabled_if_unavailable join_list self kwargs available s func_or_cls =
     (let target = objs s func_or_cls in
      if \<not> isfunction target \<and> \<not> hasattr_new target
      then Inl (TypeError ''Old-Style classes are not supported by this module.'')
      else if available then Inr (func_or_cls, s)
      else
        (let excmsg = format_exception_message join_list self kwargs in
         case target of
           Function name doc _ \<Rightarrow> Inr (alloc s (Function name doc (error_code excmsg)))
         | Class cls \<Rightarrow>
             if cls_immutable cls then Inl (InterpreterError ''TypeError'')
             else
               Inr (func_or_cls,
                    s\<lparr>objs := (objs s)(func_or_cls :=
                         Class (PyClass (Method ''__new__'' (m_doc (cls_new cls)) True (error_code excmsg))
                                        (cls_dict cls) (cls_immutable cls) (cls_metacall cls)))\<rparr>)
         | OldStyleClass _ _ \<Rightarrow> Inl (TypeError ''Old-Style classes are not supported by this module.'')
         | Plain _ \<Rightarrow> Inl (InterpreterError ''AttributeError'')))"

text \<open>
  \<^verbatim>\<open>disabled_if_unavailable(*kargs, **kwargs)\<close> returns what the direct decoration gives,
  or the decorator itself.
\<close>

datatype deco_result =
    Decorated ref store
  | Decorator "store \<Rightarrow> ref \<Rightarrow> error + ref \<times> store"

definition disabled_if_unavailable ::
  "(pyval \<Rightarrow> error + 'o::ord) \<Rightarrow> (string list \<Rightarrow> string) \<Rightarrow> checker \<Rightarrow> store \<Rightarrow>
   ref list \<Rightarrow> kwargs \<Rightarrow> error + deco_result" where
  "disabled_if_unavailable version_cb join_list self s kargs kwargs =
     bind (case kargs of
             [] \<Rightarrow> Inr False
           | k0 # _ \<Rightarrow> if callable (objs s k0) then Inr True
                       else Inl (ValueError ''kargs needs to be a callable''))
       (\<lambda>direct_deco.
     bind (is_available version_cb self kwargs)
       (\<lambda>available.
          if direct_deco
          then bind (actual_disabled_if_unavailable join_list self kwargs available s (hd kargs))
                 (\<lambda>(r, s'). Inr (Decorated r s'))
          else Inr (Decorator (actual_disabled_if_unavailable join_list self kwargs available))))"

section \<open>Notions for the statements\<close>

text \<open>
  The registry key a requirement looks up (\<^verbatim>\<open>version\<close> for the keys \<^verbatim>\<open>version\<close> and
  \<^verbatim>\<open>v\<close>, the key itself otherwise), the check the loop of \<^verbatim>\<open>_kwargs_check\<close> makes
  for one requirement, and the class that the assignment to \<^verbatim>\<open>__new__\<close> leaves.
\<close>

definition registry_key :: "string \<Rightarrow> string" where
  "registry_key k = (if k = ''version'' \<or> k = ''v'' then ''version'' else k)"

definition requirement_check ::
  "(pyval \<Rightarrow> error + 'o::ord) \<Rightarrow> checker \<Rightarrow> string \<times> pyval \<Rightarrow> error + bool" where
  "requirement_check version_cb self kv =
     (case kv of (k, v) \<Rightarrow>
        if k = ''version'' \<or> k = ''v'' then version_check version_cb self v
        else item_check self k v)"


section \<open>Example objects\<close>

text \<open>
  A checker left by a failed import and one left by a successful import that registered two
  items; an import error and another error raised in the block, and a block that registers
  a version before its import fails; a store with a function, a class, an old-style class,
  a built-in class and a class whose metaclass has its own \<^verbatim>\<open>__call__\<close>, and what the
  decorator leaves of that store when it has disabled the last of them.
\<close>

definition failed_checker :: checker where
  "failed_checker = \<lparr>nickname = ''anypackage'', checked_out = Some False, register = Map.empty\<rparr>"

definition succeeded_checker :: checker where
  "succeeded_checker = \<lparr>nickname = ''anypackage'', checked_out = Some True,
     register = [''otherthing'' \<mapsto> PyInt 2, ''flavour'' \<mapsto> PyStr ''full'']\<rparr>"

definition import_error :: exc_info where
  "import_error = \<lparr>exc_mro = [''ModuleNotFoundError'', ''ImportError'', ''Exception'', ''BaseException'', ''object''],
     exc_lines = [''ModuleNotFoundError: No module named anypackage'']\<rparr>"

definition failing_import :: "(string \<rightharpoonup> pyval) \<Rightarrow> (string \<rightharpoonup> pyval) \<times> exc_info option" where
  "failing_import reg = (reg, Some import_error)"

definition registering_then_failing ::
  "(string \<rightharpoonup> pyval) \<Rightarrow> (string \<rightharpoonup> pyval) \<times> exc_info option" where
  "registering_then_failing reg = (reg(''version'' \<mapsto> PyStr ''2.0.0''), Some import_error)"

definition value_error :: exc_info where
  "value_error = \<lparr>exc_mro = [''ValueError'', ''Exception'', ''BaseException'', ''object''],
     exc_lines = [''ValueError: bad value'']\<rparr>"

definition failing_value :: "(string \<rightharpoonup> pyval) \<Rightarrow> (string \<rightharpoonup> pyval) \<times> exc_info option" where
  "failing_value reg = (reg, Some value_error)"

definition example_function :: pyobj where
  "example_function =
     Function ''my_function_based_on_anypackage'' (Some ''Say hi.'') (\<lambda>args kw. Inr (PyStr ''hi''))"

definition example_class :: pyclass where
  "example_class =
     PyClass (Method ''__new__'' (Some ''Create and return a new object.'') False (\<lambda>args kw. Inr PyNone))
       [''flavour'' \<mapsto> PyStr ''full''] False None"

definition example_builtin_class :: pyclass where
  "example_builtin_class =
     PyClass (Method ''__new__'' (Some ''Create and return a new object.'') False (\<lambda>args kw. Inr (PyInt 0)))
       Map.empty True None"

definition example_metacall :: "code \<Rightarrow> code" where
  "example_metacall new = (\<lambda>args kw. Inr (PyStr ''instance''))"

definition example_meta_class :: pyclass where
  "example_meta_class =
     PyClass (Method ''__new__'' (Some ''Create and return a new object.'') False (\<lambda>args kw. Inr PyNone))
       [''flavour'' \<mapsto> PyStr ''full''] False (Some example_metacall)"

definition example_store :: store where
  "example_store =
     \<lparr>objs = (\<lambda>r. Plain PyNone)
        (0 := example_function, 1 := Class example_class,
         2 := OldStyleClass (\<lambda>args kw. Inr PyNone) [''flavour'' \<mapsto> PyStr ''full''],
         3 := Class example_builtin_class, 4 := Class example_meta_class),
      next_ref = 5\<rparr>"


section \<open>Properties of pairwise\<close>

lemma pairwise_zip_tl: "pairwise S = zip S (tl S)"
  by (cases S) (simp_all add: pairwise_def tee_def)

text \<open>
  Claim C5. A finite sequence \<open>S\<close> of \<open>n \<ge> 2\<close> items gives exactly \<open>n - 1\<close> pairs, the
  \<open>i\<close>-th of them being \<open>(S[i], S[i+1])\<close> for every \<open>0 \<le> i < n - 1\<close>; a sequence of at
  most one item gives no pair.
\<close>

theorem pairwise_consecutive:
  "(2 \<le> length S \<longrightarrow>
      length (pairwise S) = length S - 1 \<and>
      (\<forall>i < length S - 1. pairwise S ! i = (S ! i, S ! (i + 1)))) \<and>
   (length S \<le> 1 \<longrightarrow> pairwise S = [])"
proof (intro conjI impI allI)
  show "length (pairwise S) = length S - 1"
    by (simp add: pairwise_zip_tl)
next
  fix i assume "i < length S - 1"
  then show "pairwise S ! i = (S ! i, S ! (i + 1))"
    by (simp add: pairwise_zip_tl nth_tl)
next
  assume "length S \<le> 1"
  then have "tl S = []"
    by (cases S) simp_all
  then show "pairwise S = []"
    by (simp add: pairwise_zip_tl)
qed

theorem pairwise_consecutive_witness:
  "2 \<le> length [1, 2, 3, 4 :: int] \<and>
   pairwise [1, 2, 3, 4 :: int] = [(1, 2), (2, 3), (3, 4)] \<and>
   length (pairwise [1, 2, 3, 4 :: int]) = 3 \<and>
   pairwise [1, 2, 3, 4 :: int] ! 0 = ([1, 2, 3, 4] ! 0, [1, 2, 3, 4] ! (0 + 1)) \<and>
   pairwise [1, 2, 3, 4 :: int] ! 2 = ([1, 2, 3, 4] ! 2, [1, 2, 3, 4] ! (2 + 1)) \<and>
   length [1 :: int] \<le> 1 \<and> pairwise [1 :: int] = [] \<and> pairwise ([] :: int list) = []"
  using pairwise_consecutive [of "[1, 2, 3, 4 :: int]"] pairwise_consecutive [of "[1 :: int]"]
    pairwise_consecutive [of "[] :: int list"]
  by (simp add: pairwise_def tee_def)

section \<open>Properties of the availability query\<close>

lemma kwargs_loop_False: "kwargs_loop version_cb self False kwargs = Inr False"
  by (induction kwargs) (auto simp: py_and_def bind_def)

lemma kwargs_loop_step:
  "kwargs_loop version_cb self accumulate (kv # rest) =
     bind (py_and accumulate (requirement_check version_cb self kv))
       (\<lambda>accumulate'. kwargs_loop version_cb self accumulate' rest)"
  by (cases kv) (simp add: requirement_check_def)

lemma kwargs_loop_satisfied_prefix:
  "\<forall>kv \<in> set pre. requirement_check version_cb self kv = Inr True \<Longrightarrow>
   kwargs_loop version_cb self True (pre @ rest) = kwargs_loop version_cb self True rest"
proof (induction pre)
  case Nil
  show ?case by simp
next
  case (Cons kv pre)
  then show ?case
    by (simp add: kwargs_loop_step py_and_def bind_def del: kwargs_loop.simps)
qed

lemma requirement_check_missing:
  "register self (registry_key k) = None \<Longrightarrow>
   requirement_check version_cb self (k, v) =
     Inl (RuntimeError (''No '' @ registry_key k @ '' registered for the '' @ nickname self @ '' package.''))"
  by (auto simp: requirement_check_def registry_key_def version_check_def item_check_def)

lemma crude_version_cb_examples:
  "crude_version_cb (PyStr ''1.0.0'') = Inr [1]"
  "crude_version_cb (PyStr ''2.0.0'') = Inr [2]"
  "crude_version_cb (PyStr ''3.0.0'') = Inr [3]"
  by (simp_all add: isdigit_def is_decimal_def py_int_def bind_def)

lemma version_check_parsed:
  assumes "register self ''version'' = Some registered"
    and "version_cb registered = Inr a" and "version_cb required = Inr b"
  shows "version_check version_cb self required = Inr (a \<ge> b)"
  using assms by (simp add: version_check_def bind_def)

lemma is_available_single_version:
  assumes "checked_out self = Some True" and "k = ''version'' \<or> k = ''v''"
  shows "is_available version_cb self [(k, required)] = version_check version_cb self required"
  using assms
  by (auto simp: is_available_def kwargs_check_def py_and_def bind_def split: sum.splits)

text \<open>
  Claim C6. On a checker whose \<^verbatim>\<open>with\<close> block has not completed (\<^verbatim>\<open>_checked_out\<close> is
  still \<^verbatim>\<open>None\<close>), \<^verbatim>\<open>is_available\<close> raises the usage error for every set of
  requirements and every version callback; it never returns a Boolean.
\<close>

theorem is_available_before_acquisition:
  "checked_out self = None \<Longrightarrow>
   is_available version_cb self kwargs =
     Inl (RuntimeError (''No import was attempted yet for package '' @ nickname self @ ''.''))"
  by (simp add: is_available_def)

theorem is_available_before_acquisition_witness:
  "checked_out (init_checker ''anypackage'') = None \<and>
   is_available crude_version_cb (init_checker ''anypackage'') [(''feature'', PyInt 1)] =
     Inl (RuntimeError ''No import was attempted yet for package anypackage.'')"
  using is_available_before_acquisition [where self = "init_checker ''anypackage''"
      and version_cb = crude_version_cb and kwargs = "[(''feature'', PyInt 1)]"]
  by (simp add: init_checker_def)

text \<open>
  Claim C7, as stated, fails in what it says of the registry. \<^verbatim>\<open>__enter__\<close> hands the
  block the checker's own dictionary and \<^verbatim>\<open>__exit__\<close> does not clear it: a block that
  registers a version and then fails to import leaves a checker whose outcome is failed and
  whose registry still maps \<^verbatim>\<open>version\<close> to \<^verbatim>\<open>"2.0.0"\<close>.
\<close>

theorem failed_registry_not_empty:
  "checked_out (fst (with_stmt (init_checker ''anypackage'') registering_then_failing)) = Some False \<and>
   register (fst (with_stmt (init_checker ''anypackage'') registering_then_failing)) ''version'' =
     Some (PyStr ''2.0.0'') \<and>
   register (fst (with_stmt (init_checker ''anypackage'') registering_then_failing)) \<noteq> Map.empty"
proof -
  have reg: "register (fst (with_stmt (init_checker ''anypackage'') registering_then_failing)) =
      [''version'' \<mapsto> PyStr ''2.0.0'']"
    and out: "checked_out (fst (with_stmt (init_checker ''anypackage'') registering_then_failing)) =
      Some False"
    by (simp_all add: with_stmt_def exit_def enter_def init_checker_def registering_then_failing_def
        is_import_error_def import_error_def)
  have "[''version'' \<mapsto> PyStr ''2.0.0''] \<noteq> (Map.empty :: string \<rightharpoonup> pyval)"
    by simp
  then show ?thesis
    using reg out by simp
qed

text \<open>
  Claim C7, amended. On a checker whose outcome is failed, \<^verbatim>\<open>is_available\<close> returns
  \<^verbatim>\<open>False\<close> for every set of requirements, without raising, whether or not the required
  keys were registered: no requirement is looked at. The registry need not be empty then:
  after a block that raised an import error the outcome is failed, the registry holds what
  the block left in it, and \<^verbatim>\<open>is_available\<close> returns \<^verbatim>\<open>False\<close> all the same.
\<close>

theorem is_available_failed:
  "(checked_out self = Some False \<longrightarrow> is_available version_cb self kwargs = Inr False) \<and>
   (body (enter self) = (reg, Some e) \<and> is_import_error e \<longrightarrow>
      checked_out (fst (with_stmt self body)) = Some False \<and>
      register (fst (with_stmt self body)) = reg \<and>
      is_available version_cb (fst (with_stmt self body)) kwargs = Inr False)"
  by (simp add: is_available_def py_and_def with_stmt_def exit_def)

theorem is_available_failed_witness:
  "checked_out \<lparr>nickname = ''anypackage'', checked_out = Some False, register = Map.empty\<rparr> = Some False \<and>
   is_available crude_version_cb \<lparr>nickname = ''anypackage'', checked_out = Some False, register = Map.empty\<rparr>
     [(''feature'', PyInt 1)] = Inr False \<and>
   registering_then_failing (enter (init_checker ''anypackage'')) =
     ([''version'' \<mapsto> PyStr ''2.0.0''], Some import_error) \<and>
   is_import_error import_error \<and>
   checked_out (fst (with_stmt (init_checker ''anypackage'') registering_then_failing)) = Some False \<and>
   register (fst (with_stmt (init_checker ''anypackage'') registering_then_failing)) =
     [''version'' \<mapsto> PyStr ''2.0.0''] \<and>
   is_available crude_version_cb (fst (with_stmt (init_checker ''anypackage'') registering_then_failing))
     [(''feature'', PyInt 1)] = Inr False"
  using is_available_failed [where self = "\<lparr>nickname = ''anypackage'', checked_out = Some False, register = Map.empty\<rparr>"
      and version_cb = crude_version_cb and kwargs = "[(''feature'', PyInt 1)]"]
    is_available_failed [where self = "init_checker ''anypackage''" and body = registering_then_failing
      and reg = "[''version'' \<mapsto> PyStr ''2.0.0'']" and e = import_error
      and version_cb = crude_version_cb and kwargs = "[(''feature'', PyInt 1)]"]
  by (simp add: registering_then_failing_def enter_def init_checker_def is_import_error_def
      import_error_def)

text \<open>
  Claim C3. On a checker whose acquisition succeeded and whose registry maps
  \<^verbatim>\<open>version\<close> to \<^verbatim>\<open>"2.0.0"\<close>, \<^verbatim>\<open>is_available(version="1.0.0")\<close> is true and
  \<^verbatim>\<open>is_available(version="3.0.0")\<close> is false (with the module's own version callback).
  In general, for any version callback that parses the registered and the required value, a
  requirement keyed \<^verbatim>\<open>version\<close> or \<^verbatim>\<open>v\<close> passes exactly when the parsed registered
  version is greater than or equal to the parsed required one.
\<close>

theorem version_requirement:
  assumes "checked_out self = Some True"
  shows "(register self ''version'' = Some (PyStr ''2.0.0'') \<longrightarrow>
            is_available crude_version_cb self [(''version'', PyStr ''1.0.0'')] = Inr True \<and>
            is_available crude_version_cb self [(''version'', PyStr ''3.0.0'')] = Inr False) \<and>
         (register self ''version'' = Some registered \<and> version_cb registered = Inr a \<and>
          version_cb required = Inr b \<and> (k = ''version'' \<or> k = ''v'') \<longrightarrow>
            version_check version_cb self required = Inr (a \<ge> b) \<and>
            is_available version_cb self [(k, required)] = Inr (a \<ge> b))"
proof (intro conjI impI)
  assume reg: "register self ''version'' = Some (PyStr ''2.0.0'')"
  show "is_available crude_version_cb self [(''version'', PyStr ''1.0.0'')] = Inr True"
    using is_available_single_version [OF assms, of "''version''" crude_version_cb "PyStr ''1.0.0''"]
      version_check_parsed [OF reg crude_version_cb_examples(2) crude_version_cb_examples(1)]
    by simp
  show "is_available crude_version_cb self [(''version'', PyStr ''3.0.0'')] = Inr False"
    using is_available_single_version [OF assms, of "''version''" crude_version_cb "PyStr ''3.0.0''"]
      version_check_parsed [OF reg crude_version_cb_examples(2) crude_version_cb_examples(3)]
    by simp
next
  assume h: "register self ''version'' = Some registered \<and> version_cb registered = Inr a \<and>
          version_cb required = Inr b \<and> (k = ''version'' \<or> k = ''v'')"
  then show vc: "version_check version_cb self required = Inr (a \<ge> b)"
    by (simp add: version_check_parsed)
  from h show "is_available version_cb self [(k, required)] = Inr (a \<ge> b)"
    using is_available_single_version [OF assms, of k version_cb required] vc by simp
qed

theorem version_requirement_witness:
  "checked_out \<lparr>nickname = ''anypackage'', checked_out = Some True,
                 register = [''version'' \<mapsto> PyStr ''2.0.0'']\<rparr> = Some True \<and>
   is_available crude_version_cb \<lparr>nickname = ''anypackage'', checked_out = Some True,
       register = [''version'' \<mapsto> PyStr ''2.0.0'']\<rparr> [(''version'', PyStr ''1.0.0'')] = Inr True \<and>
   is_available crude_version_cb \<lparr>nickname = ''anypackage'', checked_out = Some True,
       register = [''version'' \<mapsto> PyStr ''2.0.0'']\<rparr> [(''version'', PyStr ''3.0.0'')] = Inr False \<and>
   crude_version_cb (PyStr ''2.0.0'') = Inr [2] \<and> crude_version_cb (PyStr ''1.0.1'') = Inr [1, 0, 1] \<and>
   is_available crude_version_cb \<lparr>nickname = ''anypackage'', checked_out = Some True,
       register = [''version'' \<mapsto> PyStr ''2.0.0'']\<rparr> [(''v'', PyStr ''1.0.1'')] = Inr True"
  using version_requirement [where self = "\<lparr>nickname = ''anypackage'', checked_out = Some True,
       register = [''version'' \<mapsto> PyStr ''2.0.0'']\<rparr>" and version_cb = crude_version_cb
       and registered = "PyStr ''2.0.0''" and a = "[2]" and required = "PyStr ''1.0.1''"
       and b = "[1, 0, 1]" and k = "''v''"]
  by (simp add: isdigit_def is_decimal_def py_int_def bind_def)

text \<open>
  Claim C1, as stated, fails. The acquisition succeeded, the key \<^verbatim>\<open>feature\<close> is absent from
  the registry, and \<^verbatim>\<open>is_available(otherthing=1, feature=1)\<close> returns \<^verbatim>\<open>False\<close>
  instead of raising: \<^verbatim>\<open>otherthing\<close> is registered with another value, the accumulator
  is false from there on, and \<^verbatim>\<open>accumulate and self._item_check(k, v)\<close> does not look
  \<^verbatim>\<open>feature\<close> up.
\<close>

theorem missing_key_short_circuit:
  "is_available crude_version_cb succeeded_checker
     [(''otherthing'', PyInt 1), (''feature'', PyInt 1)] = Inr False \<and>
   register succeeded_checker ''feature'' = None \<and>
   checked_out succeeded_checker = Some True"
  by (simp add: succeeded_checker_def is_available_def kwargs_check_def py_and_def bind_def
      item_check_def)

text \<open>
  Claim C1, amended. On a checker whose acquisition succeeded, let every requirement before
  the one keyed \<open>k\<close> (in the order of the call) be satisfied. If the registry key looked up
  for \<open>k\<close> (\<^verbatim>\<open>version\<close> for \<^verbatim>\<open>version\<close> and \<^verbatim>\<open>v\<close>, \<open>k\<close> itself otherwise) is absent,
  \<^verbatim>\<open>is_available\<close> raises the usage error naming that key, whatever requirements
  follow. If instead the requirement keyed \<open>k\<close> is not satisfied, \<^verbatim>\<open>is_available\<close> returns
  \<^verbatim>\<open>False\<close> whatever requirements follow, absent keys included.
\<close>

theorem missing_key_after_satisfied:
  assumes "checked_out self = Some True"
    and "\<forall>kv \<in> set pre. requirement_check version_cb self kv = Inr True"
  shows "(register self (registry_key k) = None \<longrightarrow>
            is_available version_cb self (pre @ (k, v) # post) =
              Inl (RuntimeError (''No '' @ registry_key k @ '' registered for the '' @
                                 nickname self @ '' package.''))) \<and>
         (requirement_check version_cb self (k, v) = Inr False \<longrightarrow>
            is_available version_cb self (pre @ (k, v) # post) = Inr False)"
proof -
  have "is_available version_cb self (pre @ (k, v) # post) =
          kwargs_loop version_cb self True ((k, v) # post)"
    using assms by (simp add: is_available_def py_and_def kwargs_check_def kwargs_loop_satisfied_prefix)
  also have "\<dots> = bind (requirement_check version_cb self (k, v))
                      (\<lambda>acc. kwargs_loop version_cb self acc post)"
    by (simp add: kwargs_loop_step py_and_def del: kwargs_loop.simps)
  finally show ?thesis
    by (auto simp: requirement_check_missing bind_def kwargs_loop_False)
qed

theorem missing_key_after_satisfied_witness:
  "checked_out succeeded_checker = Some True \<and>
   requirement_check crude_version_cb succeeded_checker (''otherthing'', PyInt 2) = Inr True \<and>
   register succeeded_checker (registry_key ''v'') = None \<and>
   is_available crude_version_cb succeeded_checker
     [(''otherthing'', PyInt 2), (''v'', PyStr ''1.0.0''), (''feature'', PyInt 1)] =
     Inl (RuntimeError ''No version registered for the anypackage package.'') \<and>
   requirement_check crude_version_cb succeeded_checker (''flavour'', PyStr ''full'') = Inr True \<and>
   requirement_check crude_version_cb succeeded_checker (''otherthing'', PyInt 1) = Inr False \<and>
   is_available crude_version_cb succeeded_checker
     [(''flavour'', PyStr ''full''), (''otherthing'', PyInt 1), (''feature'', PyInt 1)] = Inr False"
  using missing_key_after_satisfied [where self = succeeded_checker and version_cb = crude_version_cb
      and pre = "[(''otherthing'', PyInt 2)]" and k = "''v''" and v = "PyStr ''1.0.0''"
      and post = "[(''feature'', PyInt 1)]"]
    missing_key_after_satisfied [where self = succeeded_checker and version_cb = crude_version_cb
      and pre = "[(''flavour'', PyStr ''full'')]" and k = "''otherthing''" and v = "PyInt 1"
      and post = "[(''feature'', PyInt 1)]"]
  by (simp add: succeeded_checker_def requirement_check_def item_check_def registry_key_def)

section \<open>Properties of the with block\<close>

text \<open>
  Claim C2. When the \<^verbatim>\<open>with\<close> block is left with an exception, \<^verbatim>\<open>__exit__\<close> returns a
  true value, and so the exception does not propagate, if and only if the exception is an
  import error. In that case, and in no other, \<^verbatim>\<open>__exit__\<close> sets the outcome to failed:
  for any other exception the outcome stays what it was, and the exception propagates as it
  is.
\<close>

theorem exit_suppresses_import_errors_only:
  "(truthy (snd (snd (exit self (Some e)))) \<longleftrightarrow> is_import_error e) \<and>
   checked_out (fst (exit self (Some e))) =
     (if is_import_error e then Some False else checked_out self) \<and>
   (body (enter self) = (reg, Some e) \<longrightarrow>
      (snd (snd (with_stmt self body)) = None \<longleftrightarrow> is_import_error e) \<and>
      (is_import_error e \<longrightarrow> checked_out (fst (with_stmt self body)) = Some False) \<and>
      (\<not> is_import_error e \<longrightarrow> checked_out (fst (with_stmt self body)) = checked_out self) \<and>
      (\<not> is_import_error e \<longrightarrow> snd (snd (with_stmt self body)) = Some e))"
  by (simp add: with_stmt_def exit_def)

theorem exit_suppresses_import_errors_only_witness:
  "failing_import (enter (init_checker ''anypackage'')) = (Map.empty, Some import_error) \<and>
   is_import_error import_error \<and>
   snd (snd (with_stmt (init_checker ''anypackage'') failing_import)) = None \<and>
   checked_out (fst (with_stmt (init_checker ''anypackage'') failing_import)) = Some False \<and>
   failing_value (enter (init_checker ''anypackage'')) = (Map.empty, Some value_error) \<and>
   \<not> is_import_error value_error \<and>
   snd (snd (with_stmt (init_checker ''anypackage'') failing_value)) = Some value_error \<and>
   checked_out (fst (with_stmt (init_checker ''anypackage'') failing_value)) = None \<and>
   checked_out (fst (exit succeeded_checker (Some value_error))) = Some True \<and>
   checked_out (fst (exit succeeded_checker (Some import_error))) = Some False"
  using exit_suppresses_import_errors_only [where self = "init_checker ''anypackage''"
      and body = failing_import and reg = Map.empty and e = import_error]
    exit_suppresses_import_errors_only [where self = "init_checker ''anypackage''"
      and body = failing_value and reg = Map.empty and e = value_error]
    exit_suppresses_import_errors_only [where self = succeeded_checker
      and body = failing_value and reg = Map.empty and e = value_error]
    exit_suppresses_import_errors_only [where self = succeeded_checker
      and body = failing_import and reg = Map.empty and e = import_error]
  by (simp add: failing_import_def failing_value_def enter_def init_checker_def
      is_import_error_def import_error_def value_error_def succeeded_checker_def)

text \<open>
  Claim C10. When the block is left with an exception that is not an import error,
  \<^verbatim>\<open>__exit__\<close> changes nothing in the checker (no outcome is set, the registry is as the
  body left it, nothing is logged) and returns \<^verbatim>\<open>None\<close>; so on a checker that had not
  been attempted, every later \<^verbatim>\<open>is_available\<close> raises the usage error of a checker not
  yet attempted instead of returning \<^verbatim>\<open>False\<close>.
\<close>

theorem exit_leaves_checker_on_other_errors:
  "\<not> is_import_error e \<Longrightarrow>
   exit self (Some e) = (self, [], PyNone) \<and>
   (body (enter self) = (reg, Some e) \<longrightarrow>
      fst (with_stmt self body) = self\<lparr>register := reg\<rparr>) \<and>
   (checked_out self = None \<longrightarrow>
      is_available version_cb (fst (exit self (Some e))) kwargs =
        Inl (RuntimeError (''No import was attempted yet for package '' @ nickname self @ ''.'')) \<and>
      (body (enter self) = (reg, Some e) \<longrightarrow>
         is_available version_cb (fst (with_stmt self body)) kwargs =
           Inl (RuntimeError (''No import was attempted yet for package '' @ nickname self @ ''.''))))"
  by (simp add: with_stmt_def exit_def is_available_def)

theorem exit_leaves_checker_on_other_errors_witness:
  "\<not> is_import_error value_error \<and>
   exit (init_checker ''anypackage'') (Some value_error) = (init_checker ''anypackage'', [], PyNone) \<and>
   failing_value (enter (init_checker ''anypackage'')) = (Map.empty, Some value_error) \<and>
   checked_out (init_checker ''anypackage'') = None \<and>
   fst (with_stmt (init_checker ''anypackage'') failing_value) = init_checker ''anypackage'' \<and>
   is_available crude_version_cb (fst (with_stmt (init_checker ''anypackage'') failing_value)) [] =
     Inl (RuntimeError ''No import was attempted yet for package anypackage.'')"
  using exit_leaves_checker_on_other_errors [where self = "init_checker ''anypackage''"
      and body = failing_value and reg = Map.empty and e = value_error
      and version_cb = crude_version_cb and kwargs = "[]"]
  by (simp add: failing_value_def enter_def init_checker_def is_import_error_def value_error_def
      with_stmt_def exit_def is_available_def)

section \<open>Properties of the decorator\<close>

lemma disabled_if_unavailable_direct:
  assumes "callable (objs s t)" and "is_available version_cb self kwargs = Inr available"
  shows "disabled_if_unavailable version_cb jl self s (t # rest) kwargs =
           bind (actual_disabled_if_unavailable jl self kwargs available s t)
             (\<lambda>(r, s'). Inr (Decorated r s'))"
  using assms by (simp add: disabled_if_unavailable_def bind_def)

lemma disabled_if_unavailable_factory:
  assumes "is_available version_cb self kwargs = Inr available"
  shows "disabled_if_unavailable version_cb jl self s [] kwargs =
           Inr (Decorator (actual_disabled_if_unavailable jl self kwargs available))"
  using assms by (simp add: disabled_if_unavailable_def bind_def)

lemma actual_function_unavailable:
  assumes "objs s f = Function name doc body"
  shows "actual_disabled_if_unavailable jl self kwargs False s f =
           Inr (alloc s (Function name doc (error_code (format_exception_message jl self kwargs))))"
  using assms by (simp add: actual_disabled_if_unavailable_def)

lemma call_alloc_error:
  "alloc s (Function name doc (error_code msg)) = (r, s') \<Longrightarrow>
   objs s' r = Function name doc (error_code msg) \<and>
   call s' r args kw = Inl (ExternalCodeUnavailableError msg)"
  by (auto simp: alloc_def call_def error_code_def)


lemma actual_available:
  assumes "isfunction (objs s t) \<or> hasattr_new (objs s t)"
  shows "actual_disabled_if_unavailable jl self kwargs True s t = Inr (t, s)"
  using assms by (auto simp: actual_disabled_if_unavailable_def)



lemma old_style_rejected:
  assumes "\<not> isfunction (objs s t)" and "\<not> hasattr_new (objs s t)"
  shows "actual_disabled_if_unavailable jl self kwargs available s t =
           Inl (TypeError ''Old-Style classes are not supported by this module.'')"
  using assms by (simp add: actual_disabled_if_unavailable_def)


text \<open>
  Claim C4. When the target is a plain function and the availability check for the given
  requirements is false, the decorator (applied directly, or made by the factory form and then
  applied) returns a function whose name and documentation string are those of the target and
  which raises \<^verbatim>\<open>ExternalCodeUnavailableError\<close> on every call, whatever the arguments.
\<close>

theorem disabled_function_raises:
  assumes "objs s f = Function name doc body"
    and "is_available version_cb self kwargs = Inr False"
  shows "(\<exists>r s'. disabled_if_unavailable version_cb jl self s (f # rest) kwargs = Inr (Decorated r s') \<and>
            fn_name (objs s' r) = name \<and> fn_doc (objs s' r) = doc \<and> isfunction (objs s' r) \<and>
            (\<forall>args kw. call s' r args kw =
               Inl (ExternalCodeUnavailableError (format_exception_message jl self kwargs)))) \<and>
         (\<exists>deco. disabled_if_unavailable version_cb jl self sf [] kwargs = Inr (Decorator deco) \<and>
            (\<exists>r s'. deco s f = Inr (r, s') \<and>
               fn_name (objs s' r) = name \<and> fn_doc (objs s' r) = doc \<and> isfunction (objs s' r) \<and>
               (\<forall>args kw. call s' r args kw =
                  Inl (ExternalCodeUnavailableError (format_exception_message jl self kwargs)))))"
proof -
  let ?msg = "format_exception_message jl self kwargs"
  obtain r s' where a: "alloc s (Function name doc (error_code ?msg)) = (r, s')"
    by (cases "alloc s (Function name doc (error_code ?msg))")
  have act: "actual_disabled_if_unavailable jl self kwargs False s f = Inr (r, s')"
    using actual_function_unavailable [OF assms(1)] a by simp
  have obj: "objs s' r = Function name doc (error_code ?msg)"
    and calls: "\<And>args kw. call s' r args kw = Inl (ExternalCodeUnavailableError ?msg)"
    using call_alloc_error [OF a] by simp_all
  have "callable (objs s f)"
    using assms(1) by simp
  then have direct: "disabled_if_unavailable version_cb jl self s (f # rest) kwargs = Inr (Decorated r s')"
    using disabled_if_unavailable_direct [OF _ assms(2)] act by (simp add: bind_def)
  have factory: "disabled_if_unavailable version_cb jl self sf [] kwargs =
      Inr (Decorator (actual_disabled_if_unavailable jl self kwargs False))"
    by (rule disabled_if_unavailable_factory [OF assms(2)])
  show ?thesis
    using direct factory act obj calls by simp
qed

theorem disabled_function_raises_witness:
  "objs example_store 0 =
     Function ''my_function_based_on_anypackage'' (Some ''Say hi.'') (\<lambda>args kw. Inr (PyStr ''hi'')) \<and>
   is_available crude_version_cb failed_checker [] = Inr False \<and>
   (\<exists>r s'. disabled_if_unavailable crude_version_cb concat failed_checker example_store [0] [] =
              Inr (Decorated r s') \<and>
      fn_name (objs s' r) = ''my_function_based_on_anypackage'' \<and>
      fn_doc (objs s' r) = Some ''Say hi.'' \<and> isfunction (objs s' r) \<and>
      (\<forall>args kw. call s' r args kw =
         Inl (ExternalCodeUnavailableError ''The anypackage package is unavailable.''))) \<and>
   (\<exists>deco. disabled_if_unavailable crude_version_cb concat failed_checker example_store [] [] =
              Inr (Decorator deco) \<and>
      (\<exists>r s'. deco example_store 0 = Inr (r, s') \<and>
         fn_name (objs s' r) = ''my_function_based_on_anypackage'' \<and>
         fn_doc (objs s' r) = Some ''Say hi.'' \<and> isfunction (objs s' r) \<and>
         (\<forall>args kw. call s' r args kw =
            Inl (ExternalCodeUnavailableError ''The anypackage package is unavailable.''))))"
proof -
  have obj: "objs example_store 0 =
      Function ''my_function_based_on_anypackage'' (Some ''Say hi.'') (\<lambda>args kw. Inr (PyStr ''hi''))"
    by (simp add: example_store_def example_function_def)
  have av: "is_available crude_version_cb failed_checker [] = Inr False"
    by (simp add: failed_checker_def is_available_def py_and_def)
  have msg: "format_exception_message concat failed_checker [] = ''The anypackage package is unavailable.''"
    by (simp add: format_exception_message_def failed_checker_def)
  show ?thesis
    using disabled_function_raises [OF obj av, where jl = concat and rest = "[]" and sf = example_store]
      obj av
    unfolding msg by simp
qed




text \<open>
  Claim C9. When the availability check for the given requirements is true, the decorator,
  applied directly or through the factory form, returns the very function or class it was
  given and leaves the store as it was. (The legacy kind of class without \<^verbatim>\<open>__new__\<close>
  is not among these targets: the decorator rejects it, as \<open>old_style_rejected\<close> says.)
\<close>

theorem passthrough_when_available:
  assumes "is_available version_cb self kwargs = Inr True"
    and "isfunction (objs s t) \<or> (\<exists>cls. objs s t = Class cls)"
  shows "disabled_if_unavailable version_cb jl self s (t # rest) kwargs = Inr (Decorated t s) \<and>
         (\<exists>deco. disabled_if_unavailable version_cb jl self sf [] kwargs = Inr (Decorator deco) \<and>
                  deco s t = Inr (t, s))"
proof -
  have new: "isfunction (objs s t) \<or> hasattr_new (objs s t)"
    using assms(2) by auto
  have act: "actual_disabled_if_unavailable jl self kwargs True s t = Inr (t, s)"
    by (rule actual_available [OF new])
  have "callable (objs s t)"
    using assms(2) by (cases "objs s t") auto
  then have direct: "disabled_if_unavailable version_cb jl self s (t # rest) kwargs = Inr (Decorated t s)"
    using disabled_if_unavailable_direct [OF _ assms(1)] act by (simp add: bind_def)
  have factory: "disabled_if_unavailable version_cb jl self sf [] kwargs =
      Inr (Decorator (actual_disabled_if_unavailable jl self kwargs True))"
    by (rule disabled_if_unavailable_factory [OF assms(1)])
  show ?thesis
    using direct factory act by simp
qed

theorem passthrough_when_available_witness:
  "is_available crude_version_cb succeeded_checker [(''otherthing'', PyInt 2)] = Inr True \<and>
   isfunction (objs example_store 0) \<and> objs example_store 1 = Class example_class \<and>
   disabled_if_unavailable crude_version_cb concat succeeded_checker example_store [0]
     [(''otherthing'', PyInt 2)] = Inr (Decorated 0 example_store) \<and>
   disabled_if_unavailable crude_version_cb concat succeeded_checker example_store [1]
     [(''otherthing'', PyInt 2)] = Inr (Decorated 1 example_store) \<and>
   (\<exists>deco. disabled_if_unavailable crude_version_cb concat succeeded_checker example_store []
       [(''otherthing'', PyInt 2)] = Inr (Decorator deco) \<and>
      deco example_store 1 = Inr (1, example_store))"
proof -
  have av: "is_available crude_version_cb succeeded_checker [(''otherthing'', PyInt 2)] = Inr True"
    by (simp add: succeeded_checker_def is_available_def py_and_def kwargs_check_def bind_def
        item_check_def)
  have f0: "isfunction (objs example_store 0)"
    and c1: "objs example_store 1 = Class example_class"
    by (simp_all add: example_store_def example_function_def)
  have o0: "isfunction (objs example_store 0) \<or> (\<exists>cls. objs example_store 0 = Class cls)"
    and o1: "isfunction (objs example_store 1) \<or> (\<exists>cls. objs example_store 1 = Class cls)"
    using f0 c1 by simp_all
  show ?thesis
    using passthrough_when_available [OF av o0, where jl = concat and rest = "[]" and sf = example_store]
      passthrough_when_available [OF av o1, where jl = concat and rest = "[]" and sf = example_store]
      av f0 c1
    by simp
qed

end
